theory Spec2Isabelle
  imports Main
begin

section \<open>Python values handled by \<open>ImagesBatch\<close>\<close>

text \<open>
  An n-dimensional array is its shape and its elements in row-major order. A well-formed
  array has as many elements as its shape says.
\<close>

datatype ndarray = NdArray (shape: "nat list") (elems: "int list")

definition wf_array :: "ndarray \<Rightarrow> bool" where
  "wf_array a = (length (elems a) = prod_list (shape a))"

text \<open>
  The values that flow through the batch: \<open>None\<close>, integers, strings, PIL images (an image
  carries its pixel array), arrays, lists and tuples.
\<close>

datatype pyval =
    PNone
  | PInt int
  | PStr string
  | PImage ndarray
  | PArray ndarray
  | PList "pyval list"
  | PTuple "pyval list"

text \<open>
  Exceptions. \<open>CouldNotAssemble\<close> is \<open>ValueError("Could not assemble the batch", errors)\<close>,
  \<open>UnsupportedFormat\<close> is \<open>ValueError("Unsupported format:", fmt)\<close>, \<open>NumpyValueError\<close> is
  the \<open>ValueError\<close> that numpy raises when shapes or axes do not fit. \<open>Unmodelled\<close> marks
  library behaviour outside the fragment of numpy embedded here; no theorem below rests on
  that branch.
\<close>

datatype error =
    CouldNotAssemble "(nat \<times> error) list"
  | UnsupportedFormat pyval
  | NumpyValueError
  | IndexError
  | TypeError
  | AttributeError
  | UnboundLocalError
  | KeyError
  | UserError string
  | Unmodelled

text \<open>What a method call returns when it does not raise: \<open>self\<close> or \<open>None\<close>.\<close>

datatype retval = ReturnsSelf | ReturnsNone

type_synonym kwargs = "(string \<times> pyval) list"

subsection \<open>Built-in operations on values\<close>

text \<open>Entry \<open>i\<close> along the first axis of an array with at least one axis.\<close>

definition array_item :: "ndarray \<Rightarrow> nat \<Rightarrow> pyval" where
  "array_item a i =
     (case tl (shape a) of
        [] \<Rightarrow> PInt (elems a ! i)
      | d # ds \<Rightarrow> (let m = prod_list (d # ds)
                  in PArray (NdArray (d # ds) (take m (drop (i * m) (elems a))))))"

text \<open>\<open>x[i]\<close> for a non-negative integer \<open>i\<close>.\<close>

definition py_getitem :: "pyval \<Rightarrow> nat \<Rightarrow> error + pyval" where
  "py_getitem x i =
     (case x of
        PList xs \<Rightarrow> (if i < length xs then Inr (xs ! i) else Inl IndexError)
      | PTuple xs \<Rightarrow> (if i < length xs then Inr (xs ! i) else Inl IndexError)
      | PStr s \<Rightarrow> (if i < length s then Inr (PStr [s ! i]) else Inl IndexError)
      | PArray a \<Rightarrow>
          (case shape a of
             [] \<Rightarrow> Inl IndexError
           | n # _ \<Rightarrow> (if i < n then Inr (array_item a i) else Inl IndexError))
      | _ \<Rightarrow> Inl TypeError)"

text \<open>The items that iterating over \<open>x\<close> yields, as \<open>list(x)\<close> and \<open>tuple(x)\<close> collect them.\<close>

definition py_list :: "pyval \<Rightarrow> error + pyval list" where
  "py_list x =
     (case x of
        PList xs \<Rightarrow> Inr xs
      | PTuple xs \<Rightarrow> Inr xs
      | PStr s \<Rightarrow> Inr (map (\<lambda>c. PStr [c]) s)
      | PArray a \<Rightarrow>
          (case shape a of
             [] \<Rightarrow> Inl TypeError
           | n # _ \<Rightarrow> Inr (map (array_item a) [0..<n]))
      | _ \<Rightarrow> Inl TypeError)"

text \<open>The call \<open>tuple(*xs)\<close>: \<open>tuple\<close> takes at most one argument.\<close>

definition py_tuple :: "pyval list \<Rightarrow> error + pyval list" where
  "py_tuple xs =
     (case xs of
        [] \<Rightarrow> Inr []
      | [x] \<Rightarrow> py_list x
      | _ \<Rightarrow> Inl TypeError)"

text \<open>
  \<open>x[pos] = v\<close>: the container after the store. A tuple is immutable. Storing into a row
  of an array is modelled for a scalar (which fills the row) and for an array of the row's
  shape.
\<close>

definition py_setitem :: "pyval \<Rightarrow> nat \<Rightarrow> pyval \<Rightarrow> error + pyval" where
  "py_setitem x pos v =
     (case x of
        PList xs \<Rightarrow> (if pos < length xs then Inr (PList (xs[pos := v])) else Inl IndexError)
      | PArray a \<Rightarrow>
          (case shape a of
             [] \<Rightarrow> Inl IndexError
           | n # ds \<Rightarrow>
               (if pos < n then
                  (let m = prod_list ds;
                       before = take (pos * m) (elems a);
                       after = drop (pos * m + m) (elems a)
                   in case v of
                        PInt k \<Rightarrow> Inr (PArray (NdArray (n # ds) (before @ replicate m k @ after)))
                      | PArray r \<Rightarrow>
                          (if shape r = ds
                           then Inr (PArray (NdArray (n # ds) (before @ elems r @ after)))
                           else Inl Unmodelled)
                      | _ \<Rightarrow> Inl Unmodelled)
                else Inl IndexError))
      | _ \<Rightarrow> Inl TypeError)"

subsection \<open>The fragment of numpy that \<open>assemble\<close> and \<open>load\<close> use\<close>

text \<open>\<open>np.asanyarray\<close> on a number, an array or a PIL image.\<close>

definition asanyarray :: "pyval \<Rightarrow> error + ndarray" where
  "asanyarray x =
     (case x of
        PInt k \<Rightarrow> Inr (NdArray [] [k])
      | PArray a \<Rightarrow> Inr a
      | PImage a \<Rightarrow> Inr a
      | _ \<Rightarrow> Inl Unmodelled)"

text \<open>
  \<open>np.atleast_3d\<close>: a 0-d array becomes \<open>(1, 1, 1)\<close>, shape \<open>(n)\<close> becomes \<open>(1, n, 1)\<close>,
  shape \<open>(m, n)\<close> becomes \<open>(m, n, 1)\<close>; the elements keep their order.
\<close>

definition atleast_3d :: "ndarray \<Rightarrow> ndarray" where
  "atleast_3d a =
     (case shape a of
        [] \<Rightarrow> NdArray [1, 1, 1] (elems a)
      | [n] \<Rightarrow> NdArray [1, n, 1] (elems a)
      | [m, n] \<Rightarrow> NdArray [m, n, 1] (elems a)
      | _ \<Rightarrow> a)"

text \<open>
  \<open>np.concatenate(arrs, 2)\<close> on arrays of at least three axes: all arrays must have the same
  number of axes and agree on every axis but the third.
\<close>

definition same_but_axis2 :: "ndarray \<Rightarrow> ndarray \<Rightarrow> bool" where
  "same_but_axis2 a x =
     (length (shape x) = length (shape a) \<and> take 2 (shape x) = take 2 (shape a)
      \<and> drop 3 (shape x) = drop 3 (shape a))"

definition chunk :: "ndarray \<Rightarrow> nat" where
  "chunk x = prod_list (drop 2 (shape x))"

definition concatenate_axis2 :: "ndarray list \<Rightarrow> error + ndarray" where
  "concatenate_axis2 arrs =
     (case arrs of
        [] \<Rightarrow> Inl NumpyValueError
      | a # _ \<Rightarrow>
          (if list_all (same_but_axis2 a) arrs then
             Inr (NdArray
                    (take 2 (shape a) @ [sum_list (map (\<lambda>x. shape x ! 2) arrs)] @ drop 3 (shape a))
                    (concat (map (\<lambda>outer.
                                    concat (map (\<lambda>x. take (chunk x) (drop (outer * chunk x) (elems x)))
                                                arrs))
                                 [0..<prod_list (take 2 (shape a))])))
           else Inl NumpyValueError))"

fun sequence :: "(error + 'a) list \<Rightarrow> error + 'a list" where
  "sequence [] = Inr []"
| "sequence (r # rs) =
     (case r of
        Inl e \<Rightarrow> Inl e
      | Inr x \<Rightarrow> (case sequence rs of Inl e \<Rightarrow> Inl e | Inr xs \<Rightarrow> Inr (x # xs)))"

definition dstack :: "pyval list \<Rightarrow> error + ndarray" where
  "dstack tup =
     (case sequence (map asanyarray tup) of
        Inl e \<Rightarrow> Inl e
      | Inr arrs \<Rightarrow> concatenate_axis2 (map atleast_3d arrs))"

text \<open>
  \<open>np.transpose(a, (2, 0, 1))\<close>: the array must have three axes; entry \<open>[k, i, j]\<close> of the
  result is entry \<open>[i, j, k]\<close> of \<open>a\<close>.
\<close>

definition transpose_201 :: "ndarray \<Rightarrow> error + ndarray" where
  "transpose_201 a =
     (case shape a of
        [m, n, k] \<Rightarrow>
          Inr (NdArray [k, m, n]
                 (map (\<lambda>idx. elems a ! ((idx mod (m * n)) * k + idx div (m * n)))
                      [0..<k * m * n]))
      | _ \<Rightarrow> Inl NumpyValueError)"

text \<open>
  \<open>c[indices]\<close> with an array of integer identifiers: rows of \<open>c\<close> picked along the first
  axis, a negative identifier counting from the end. Only an array can be indexed so.
\<close>

definition norm_index :: "nat \<Rightarrow> int \<Rightarrow> error + nat" where
  "norm_index n i =
     (let j = (if i < 0 then int n + i else i)
      in if 0 \<le> j \<and> j < int n then Inr (nat j) else Inl IndexError)"

definition row :: "ndarray \<Rightarrow> nat \<Rightarrow> int list" where
  "row a p = (let m = prod_list (tl (shape a)) in take m (drop (p * m) (elems a)))"

definition fancy_index :: "pyval \<Rightarrow> int list \<Rightarrow> error + pyval" where
  "fancy_index c ids =
     (case c of
        PArray a \<Rightarrow>
          (case shape a of
             [] \<Rightarrow> Inl IndexError
           | n # ds \<Rightarrow>
               (case sequence (map (norm_index n) ids) of
                  Inl e \<Rightarrow> Inl e
                | Inr ps \<Rightarrow> Inr (PArray (NdArray (length ids # ds) (concat (map (row a) ps))))))
      | _ \<Rightarrow> Inl TypeError)"

section \<open>The batch\<close>

text \<open>
  The state of an \<open>ImagesBatch\<close> object: the identifiers of its items, the attribute
  container \<open>_data\<close>, the scratch attribute \<open>_new_attr\<close>, and the instance attributes that
  \<open>setattr\<close> created under other names.
\<close>

record batch =
  indices :: "int list"
  priv_data :: pyval
  priv_new_attr :: pyval
  extra :: "(string \<times> pyval) list"

text \<open>
  Modelled from the spec: the base class \<open>Batch\<close> is not among the sources. Its constructor
  takes the identifiers from \<open>index\<close> and seeds the attributes with \<open>preloaded\<close>;
  \<open>ImagesBatch.__init__\<close> then sets \<open>_new_attr\<close> to \<open>None\<close>.
\<close>

definition init :: "int list \<Rightarrow> pyval \<Rightarrow> batch" where
  "init index preloaded =
     \<lparr>indices = index, priv_data = preloaded, priv_new_attr = PNone, extra = []\<rparr>"

text \<open>
  Modelled from the spec: \<open>super().data\<close>, the \<open>data\<close> property of the missing base class,
  reads the container \<open>_data\<close> that the setters and \<open>load\<close> assign.
\<close>

definition base_data :: "batch \<Rightarrow> pyval" where
  "base_data b = priv_data b"

definition data :: "batch \<Rightarrow> pyval" where
  "data b = (let d = base_data b in if d \<noteq> PNone then d else PTuple [PNone, PNone, PNone])"

definition images :: "batch \<Rightarrow> error + pyval" where
  "images b = (if data b \<noteq> PNone then py_getitem (data b) 0 else Inr PNone)"

definition labels :: "batch \<Rightarrow> error + pyval" where
  "labels b = (if data b \<noteq> PNone then py_getitem (data b) 1 else Inr PNone)"

definition masks :: "batch \<Rightarrow> error + pyval" where
  "masks b = (if data b \<noteq> PNone then py_getitem (data b) 2 else Inr PNone)"

text \<open>\<open>xs[i] = v\<close> on a Python list.\<close>

definition list_store :: "pyval list \<Rightarrow> nat \<Rightarrow> pyval \<Rightarrow> error + pyval list" where
  "list_store xs i v = (if i < length xs then Inr (xs[i := v]) else Inl IndexError)"

definition images_setter :: "batch \<Rightarrow> pyval \<Rightarrow> error + batch" where
  "images_setter b v =
     (case py_list (data b) of
        Inl e \<Rightarrow> Inl e
      | Inr d \<Rightarrow>
          (case list_store d 0 v of
             Inl e \<Rightarrow> Inl e
           | Inr d' \<Rightarrow> Inr (b\<lparr>priv_data := PList d'\<rparr>)))"

definition labels_setter :: "batch \<Rightarrow> pyval \<Rightarrow> error + batch" where
  "labels_setter b v =
     (case py_list (data b) of
        Inl e \<Rightarrow> Inl e
      | Inr d \<Rightarrow>
          (case list_store d 1 v of
             Inl e \<Rightarrow> Inl e
           | Inr d' \<Rightarrow> Inr (b\<lparr>priv_data := PList d'\<rparr>)))"

definition masks_setter :: "batch \<Rightarrow> pyval \<Rightarrow> error + batch" where
  "masks_setter b v =
     (case py_list (data b) of
        Inl e \<Rightarrow> Inl e
      | Inr d \<Rightarrow>
          (case list_store d 3 v of
             Inl e \<Rightarrow> Inl e
           | Inr d' \<Rightarrow> Inr (b\<lparr>priv_data := PList d'\<rparr>)))"

subsection \<open>Attribute access by name\<close>

text \<open>
  \<open>getattr(self, name)\<close> and \<open>setattr(self, name, value)\<close> on the data attributes of the
  batch. \<open>images\<close>, \<open>labels\<close> and \<open>masks\<close> go through their properties; \<open>data\<close> is a
  property without a setter; \<open>indices\<close> is, by the spec, fixed for the lifetime of the batch.
  Any other name is a plain instance attribute.
\<close>

definition py_getattr :: "batch \<Rightarrow> string \<Rightarrow> error + pyval" where
  "py_getattr b name =
     (if name = ''images'' then images b
      else if name = ''labels'' then labels b
      else if name = ''masks'' then masks b
      else if name = ''data'' then Inr (data b)
      else if name = ''_data'' then Inr (priv_data b)
      else if name = ''_new_attr'' then Inr (priv_new_attr b)
      else if name = ''indices'' then Inr (PArray (NdArray [length (indices b)] (indices b)))
      else (case map_of (extra b) name of None \<Rightarrow> Inl AttributeError | Some v \<Rightarrow> Inr v))"

definition py_setattr :: "batch \<Rightarrow> string \<Rightarrow> pyval \<Rightarrow> error + batch" where
  "py_setattr b name v =
     (if name = ''images'' then images_setter b v
      else if name = ''labels'' then labels_setter b v
      else if name = ''masks'' then masks_setter b v
      else if name = ''data'' then Inl AttributeError
      else if name = ''indices'' then Inl AttributeError
      else if name = ''_data'' then Inr (b\<lparr>priv_data := v\<rparr>)
      else if name = ''_new_attr'' then Inr (b\<lparr>priv_new_attr := v\<rparr>)
      else Inr (b\<lparr>extra := (name, v) # filter (\<lambda>kv. fst kv \<noteq> name) (extra b)\<rparr>))"

section \<open>Outcomes of a parallel action\<close>

text \<open>
  The list \<open>all_res\<close> that a parallel action hands to its post-function holds, at each
  position, the value the item's call returned or the exception it raised.
\<close>

datatype outcome = Success pyval | Failure error

text \<open>
  Modelled from the spec: \<open>any_action_failed\<close> lives in the missing module \<open>decorators\<close>.
  It tells whether any outcome is a failure.
\<close>

definition any_action_failed :: "outcome list \<Rightarrow> bool" where
  "any_action_failed all_res =
     list_ex (\<lambda>r. case r of Failure _ \<Rightarrow> True | Success _ \<Rightarrow> False) all_res"

text \<open>
  Modelled from the spec: \<open>get_errors\<close> is a method of the missing base class. It collects
  the pair of position and error of every failed item, in order.
\<close>

definition get_errors :: "outcome list \<Rightarrow> (nat \<times> error) list" where
  "get_errors all_res =
     concat (map (\<lambda>pr. case snd pr of Failure e \<Rightarrow> [(fst pr, e)] | Success _ \<Rightarrow> [])
                 (enumerate 0 all_res))"


definition the_value :: "outcome \<Rightarrow> pyval" where
  "the_value r = (case r of Success v \<Rightarrow> v | Failure _ \<Rightarrow> PNone)"

section \<open>\<open>assemble\<close>\<close>

text \<open>
  A method returns what it raised or returned, and the state of the batch after the call.
  \<open>assemble\<close> raises when an item failed; otherwise it stores the results under the
  attribute named by the keyword \<open>attr\<close> (default \<open>images\<close>): the list itself when its first
  entry is a PIL image, else the arrays stacked along a third axis and that axis moved to
  the front.
\<close>

definition is_image :: "pyval \<Rightarrow> bool" where
  "is_image x = (case x of PImage _ \<Rightarrow> True | _ \<Rightarrow> False)"

definition kwargs_get :: "kwargs \<Rightarrow> string \<Rightarrow> pyval \<Rightarrow> pyval" where
  "kwargs_get kw k dflt = (case map_of kw k of None \<Rightarrow> dflt | Some v \<Rightarrow> v)"

definition setattr_named :: "batch \<Rightarrow> pyval \<Rightarrow> pyval \<Rightarrow> (error + retval) \<times> batch" where
  "setattr_named b attr v =
     (case attr of
        PStr name \<Rightarrow>
          (case py_setattr b name v of
             Inl e \<Rightarrow> (Inl e, b)
           | Inr b' \<Rightarrow> (Inr ReturnsSelf, b'))
      | _ \<Rightarrow> (Inl TypeError, b))"

definition assemble :: "batch \<Rightarrow> outcome list \<Rightarrow> kwargs \<Rightarrow> (error + retval) \<times> batch" where
  "assemble b all_res kw =
     (if any_action_failed all_res then (Inl (CouldNotAssemble (get_errors all_res)), b)
      else
        (let attr = kwargs_get kw ''attr'' (PStr ''images'');
             vals = map the_value all_res
         in case vals of
              [] \<Rightarrow> (Inl IndexError, b)
            | first # _ \<Rightarrow>
                (if is_image first then setattr_named b attr (PList vals)
                 else
                   (case dstack vals of
                      Inl e \<Rightarrow> (Inl e, b)
                    | Inr stacked \<Rightarrow>
                        (case transpose_201 stacked of
                           Inl e \<Rightarrow> (Inl e, b)
                         | Inr t \<Rightarrow> setattr_named b attr (PArray t))))))"

section \<open>\<open>load\<close> and \<open>dump\<close>\<close>

text \<open>
  The generator of \<open>load\<close>, for \<open>i\<close> in \<open>range(3)\<close>:
  \<open>src[i][self.indices] if len(src) > i else None\<close>.
\<close>

definition load_slot :: "pyval list \<Rightarrow> int list \<Rightarrow> nat \<Rightarrow> error + pyval" where
  "load_slot src ids i = (if length src > i then fancy_index (src ! i) ids else Inr PNone)"

definition load :: "batch \<Rightarrow> pyval \<Rightarrow> pyval \<Rightarrow> (error + retval) \<times> batch" where
  "load b src fmt =
     (if fmt = PNone then
        (case src of
           PTuple cs \<Rightarrow>
             (case sequence (map (load_slot cs (indices b)) [0..<3]) of
                Inl e \<Rightarrow> (Inl e, b)
              | Inr slots \<Rightarrow> (Inr ReturnsSelf, b\<lparr>priv_data := PTuple slots\<rparr>))
         | _ \<Rightarrow>
             (case fancy_index src (indices b) of
                Inl e \<Rightarrow> (Inl e, b)
              | Inr v \<Rightarrow> (Inr ReturnsSelf, b\<lparr>priv_data := PTuple [v, PNone, PNone]\<rparr>)))
      else (Inl (UnsupportedFormat fmt), b))"

definition dump :: "batch \<Rightarrow> pyval \<Rightarrow> pyval \<Rightarrow> (error + retval) \<times> batch" where
  "dump b dst fmt = (Inr ReturnsSelf, b)"

section \<open>\<open>apply_transform\<close> and \<open>apply_transform_all\<close>\<close>

type_synonym pyfunc = "pyval list \<Rightarrow> kwargs \<Rightarrow> error + pyval"

text \<open>
  Modelled from the spec: \<open>index.get_pos\<close> belongs to the missing index class. It gives the
  position of an identifier in the batch's identifiers.
\<close>

fun index_of :: "int list \<Rightarrow> int \<Rightarrow> nat option" where
  "index_of [] x = None"
| "index_of (y # ys) x = (if y = x then Some 0 else map_option Suc (index_of ys x))"

definition get_pos :: "batch \<Rightarrow> int \<Rightarrow> error + nat" where
  "get_pos b ix = (case index_of (indices b) ix of None \<Rightarrow> Inl KeyError | Some p \<Rightarrow> Inr p)"

text \<open>
  A local variable of a function body is unbound until its first assignment; reading it
  before raises \<open>UnboundLocalError\<close>.
\<close>

definition read_local :: "'a option \<Rightarrow> error + 'a" where
  "read_local v = (case v of None \<Rightarrow> Inl UnboundLocalError | Some x \<Rightarrow> Inr x)"

text \<open>
  \<open>dst_attr[pos] = value\<close> changes the object that \<open>getattr(self, dst)\<close> returned, so the
  change shows in the attribute that holds it. For \<open>images\<close>, \<open>labels\<close> and \<open>masks\<close> the
  object sits in a slot of \<open>_data\<close>. Two attributes that hold the same object are not
  modelled.
\<close>

definition replace_slot :: "batch \<Rightarrow> nat \<Rightarrow> pyval \<Rightarrow> error + batch" where
  "replace_slot b i c =
     (case priv_data b of
        PList xs \<Rightarrow> Inr (b\<lparr>priv_data := PList (xs[i := c])\<rparr>)
      | PTuple xs \<Rightarrow> Inr (b\<lparr>priv_data := PTuple (xs[i := c])\<rparr>)
      | _ \<Rightarrow> Inl Unmodelled)"

definition attr_store_back :: "batch \<Rightarrow> string \<Rightarrow> pyval \<Rightarrow> error + batch" where
  "attr_store_back b name c =
     (if name = ''images'' then replace_slot b 0 c
      else if name = ''labels'' then replace_slot b 1 c
      else if name = ''masks'' then replace_slot b 2 c
      else if name = ''data'' then Inr (b\<lparr>priv_data := c\<rparr>)
      else if name = ''_data'' then Inr (b\<lparr>priv_data := c\<rparr>)
      else if name = ''_new_attr'' then Inr (b\<lparr>priv_new_attr := c\<rparr>)
      else if name = ''indices'' then
        (case c of PArray a \<Rightarrow> Inr (b\<lparr>indices := elems a\<rparr>) | _ \<Rightarrow> Inl Unmodelled)
      else Inr (b\<lparr>extra := (name, c) # filter (\<lambda>kv. fst kv \<noteq> name) (extra b)\<rparr>))"

text \<open>
  The body of \<open>apply_transform\<close> for the item with identifier \<open>ix\<close>. The local \<open>pos\<close> is
  assigned only after \<open>all_args\<close> is built, so it is still unbound where the branch for a
  set \<open>src\<close> reads it.
\<close>

definition apply_transform_body ::
  "batch \<Rightarrow> int \<Rightarrow> string option \<Rightarrow> string \<Rightarrow> pyfunc \<Rightarrow> pyval list \<Rightarrow> kwargs
   \<Rightarrow> (error + pyval) \<times> batch" where
  "apply_transform_body b ix src dst func args kw =
     (let pos = (None :: nat option) in
      case (case src of
              None \<Rightarrow> Inr args
            | Some s \<Rightarrow>
                (case py_getattr b s of
                   Inl e \<Rightarrow> Inl e
                 | Inr src_attr \<Rightarrow>
                     (case read_local pos of
                        Inl e \<Rightarrow> Inl e
                      | Inr p \<Rightarrow>
                          (case py_getitem src_attr p of
                             Inl e \<Rightarrow> Inl e
                           | Inr v \<Rightarrow> py_tuple (v # args))))) of
        Inl e \<Rightarrow> (Inl e, b)
      | Inr all_args \<Rightarrow>
          (case py_getattr b dst of
             Inl e \<Rightarrow> (Inl e, b)
           | Inr dst_attr \<Rightarrow>
               (case get_pos b ix of
                  Inl e \<Rightarrow> (Inl e, b)
                | Inr pos \<Rightarrow>
                    (case func all_args kw of
                       Inl e \<Rightarrow> (Inl e, b)
                     | Inr v \<Rightarrow>
                         (case py_setitem dst_attr pos v of
                            Inl e \<Rightarrow> (Inl e, b)
                          | Inr c \<Rightarrow>
                              (case attr_store_back b dst c of
                                 Inl e \<Rightarrow> (Inl e, b)
                               | Inr b' \<Rightarrow> (Inr PNone, b')))))))"

text \<open>
  Modelled from the spec: the dispatcher with \<open>init='indices'\<close> runs the body once per
  identifier, in the order of the identifiers, and records each call's outcome at its
  position.
\<close>

fun run_items ::
  "(batch \<Rightarrow> int \<Rightarrow> (error + pyval) \<times> batch) \<Rightarrow> batch \<Rightarrow> int list \<Rightarrow> outcome list \<times> batch" where
  "run_items body b [] = ([], b)"
| "run_items body b (ix # ixs) =
     (case body b ix of
        (r, b') \<Rightarrow>
          (case run_items body b' ixs of
             (rs, b'') \<Rightarrow> ((case r of Inl e \<Rightarrow> Failure e | Inr v \<Rightarrow> Success v) # rs, b'')))"

definition apply_transform ::
  "batch \<Rightarrow> string option \<Rightarrow> string \<Rightarrow> pyfunc \<Rightarrow> pyval list \<Rightarrow> kwargs \<Rightarrow> outcome list \<times> batch" where
  "apply_transform b src dst func args kw =
     run_items (\<lambda>b' ix. apply_transform_body b' ix src dst func args kw) b (indices b)"

text \<open>
  \<open>apply_transform_all\<close> binds the result of \<open>func\<close> to the local \<open>dst_attr\<close> and ends
  without a \<open>return\<close> statement.
\<close>

definition apply_transform_all ::
  "batch \<Rightarrow> string option \<Rightarrow> string \<Rightarrow> pyfunc \<Rightarrow> pyval list \<Rightarrow> kwargs
   \<Rightarrow> (error + retval) \<times> batch" where
  "apply_transform_all b src dst func args kw =
     (case (case src of
              None \<Rightarrow> Inr args
            | Some s \<Rightarrow>
                (case py_getattr b s of
                   Inl e \<Rightarrow> Inl e
                 | Inr src_attr \<Rightarrow> py_tuple (src_attr # args))) of
        Inl e \<Rightarrow> (Inl e, b)
      | Inr all_args \<Rightarrow>
          (case py_getattr b dst of
             Inl e \<Rightarrow> (Inl e, b)
           | Inr dst_attr \<Rightarrow>
               (case func all_args kw of
                  Inl e \<Rightarrow> (Inl e, b)
                | Inr dst_attr' \<Rightarrow> (Inr ReturnsNone, b))))"

section \<open>Objects of the concrete scenarios\<close>

text \<open>A function that doubles its single integer argument, as a per-item callable.\<close>

definition times2 :: pyfunc where
  "times2 args kw = (case args of [PInt n] \<Rightarrow> Inr (PInt (n * 2)) | _ \<Rightarrow> Inl TypeError)"


text \<open>A batch of three items whose images are \<open>[1, 2, 3]\<close>, with a scratch list of three slots.\<close>

definition batch3 :: batch where
  "batch3 = \<lparr>indices = [0, 1, 2],
             priv_data = PTuple [PList [PInt 1, PInt 2, PInt 3], PNone, PNone],
             priv_new_attr = PList [PNone, PNone, PNone], extra = []\<rparr>"


section \<open>Sources that \<open>load\<close> can select from\<close>

text \<open>
  The position that an identifier selects in a container of \<open>n\<close> entries, the number of
  entries of a container along its first axis, and the containers that can be indexed with
  the identifiers \<open>ids\<close>: well-formed arrays of at least one axis in which every
  identifier is in range.
\<close>

definition position :: "nat \<Rightarrow> int \<Rightarrow> nat" where
  "position n i = nat (if i < 0 then int n + i else i)"

definition first_axis :: "pyval \<Rightarrow> nat" where
  "first_axis c = (case c of PArray a \<Rightarrow> (case shape a of [] \<Rightarrow> 0 | n # _ \<Rightarrow> n) | _ \<Rightarrow> 0)"

definition valid_source :: "int list \<Rightarrow> pyval \<Rightarrow> bool" where
  "valid_source ids c =
     (case c of
        PArray a \<Rightarrow>
          wf_array a \<and>
          (case shape a of
             [] \<Rightarrow> False
           | n # _ \<Rightarrow> list_all (\<lambda>ix. - int n \<le> ix \<and> ix < int n) ids)
      | _ \<Rightarrow> False)"

section \<open>Auxiliary facts\<close>


lemma range3: "[0..<3] = [0, 1, 2]"
  by (simp add: upt_rec)




lemma sequence_map_Inr:
  "(\<And>x. x \<in> set xs \<Longrightarrow> f x = Inr (g x)) \<Longrightarrow> sequence (map f xs) = Inr (map g xs)"
  by (induction xs) auto

lemma take_drop_concat_uniform:
  "\<forall>x\<in>set xss. length x = m \<Longrightarrow> p < length xss \<Longrightarrow>
     take m (drop (p * m) (concat xss)) = xss ! p"
proof (induction xss arbitrary: p)
  case Nil
  then show ?case by simp
next
  case (Cons xs xss)
  have len: "length xs = m" using Cons.prems(1) by simp
  show ?case
  proof (cases p)
    case 0
    then show ?thesis using len by simp
  next
    case (Suc q)
    have "take m (drop (q * m) (concat xss)) = xss ! q"
      using Cons.IH [of q] Cons.prems Suc by simp
    then show ?thesis using Suc len by (simp add: add.commute)
  qed
qed




section \<open>Failure aggregation in \<open>assemble\<close>\<close>

lemma any_action_failed_iff:
  "any_action_failed all_res \<longleftrightarrow> (\<exists>e. Failure e \<in> set all_res)"
  unfolding any_action_failed_def list_ex_iff
proof
  assume "\<exists>x\<in>set all_res. case x of Success _ \<Rightarrow> False | Failure _ \<Rightarrow> True"
  then obtain x where mem: "x \<in> set all_res"
    and failed: "case x of Success _ \<Rightarrow> False | Failure _ \<Rightarrow> True" by blast
  show "\<exists>e. Failure e \<in> set all_res"
  proof (cases x)
    case (Success v)
    with failed show ?thesis by simp
  next
    case (Failure e)
    with mem show ?thesis by blast
  qed
next
  assume "\<exists>e. Failure e \<in> set all_res"
  then show "\<exists>x\<in>set all_res. case x of Success _ \<Rightarrow> False | Failure _ \<Rightarrow> True"
    by force
qed

lemma get_errors_set_aux:
  "(q, e) \<in> set (concat (map (\<lambda>pr. case snd pr of Failure e \<Rightarrow> [(fst pr, e)] | Success _ \<Rightarrow> [])
                 (enumerate n xs)))
   \<longleftrightarrow> (n \<le> q \<and> q - n < length xs \<and> xs ! (q - n) = Failure e)"
proof (induction xs arbitrary: n)
  case Nil
  then show ?case by simp
next
  case (Cons x xs)
  show ?case
  proof (cases "q = n")
    case True
    then show ?thesis using Cons [of "Suc n"] by (auto split: outcome.splits)
  next
    case False
    then show ?thesis using Cons [of "Suc n"]
      by (auto split: outcome.splits simp: nth_Cons' Suc_diff_le)
  qed
qed

lemma get_errors_set:
  "(q, e) \<in> set (get_errors all_res) \<longleftrightarrow> (q < length all_res \<and> all_res ! q = Failure e)"
  unfolding get_errors_def using get_errors_set_aux [of q e 0 all_res] by simp

text \<open>
  Claim C1. When at least one item failed, \<open>assemble\<close> raises the aggregate error, which
  carries the position and error of every failed item and of no other, and the batch, hence
  every attribute of it, is as it was before the call.
\<close>

theorem assemble_failure_aggregate:
  assumes "p < length all_res" and "all_res ! p = Failure e"
  shows "assemble b all_res kw = (Inl (CouldNotAssemble (get_errors all_res)), b)
         \<and> (\<forall>q e'. (q, e') \<in> set (get_errors all_res)
                     \<longleftrightarrow> (q < length all_res \<and> all_res ! q = Failure e'))
         \<and> (\<forall>name. py_getattr (snd (assemble b all_res kw)) name = py_getattr b name)"
proof -
  have "Failure e \<in> set all_res" using assms by (metis nth_mem)
  then have "any_action_failed all_res" by (auto simp: any_action_failed_iff)
  then have "assemble b all_res kw = (Inl (CouldNotAssemble (get_errors all_res)), b)"
    by (simp add: assemble_def)
  then show ?thesis by (simp add: get_errors_set)
qed

theorem assemble_failure_aggregate_witness:
  "assemble batch3
     [Success (PInt 2), Failure (UserError ''a''), Failure (UserError ''b''), Success (PInt 8)] []
   = (Inl (CouldNotAssemble [(1, UserError ''a''), (2, UserError ''b'')]), batch3)"
  using assemble_failure_aggregate [of 1
          "[Success (PInt 2), Failure (UserError ''a''), Failure (UserError ''b''), Success (PInt 8)]"
          "UserError ''a''" batch3 "[]"]
  by (simp add: get_errors_def)

section \<open>The two ways \<open>assemble\<close> stores results\<close>







section \<open>Stacking arrays\<close>










section \<open>The attribute container and its setters\<close>

text \<open>
  Claim C10. With the container \<open>_data\<close> unset, \<open>data\<close> is the tuple
  \<open>(None, None, None)\<close>, and \<open>images\<close>, \<open>labels\<close> and \<open>masks\<close> return \<open>None\<close> without
  raising.
\<close>

theorem data_unset_defaults:
  "priv_data b = PNone \<Longrightarrow>
     data b = PTuple [PNone, PNone, PNone] \<and> images b = Inr PNone
     \<and> labels b = Inr PNone \<and> masks b = Inr PNone"
  by (simp add: data_def base_data_def images_def labels_def masks_def py_getitem_def)

theorem data_unset_defaults_witness:
  "priv_data (init [0, 1, 2] PNone) = PNone
   \<and> data (init [0, 1, 2] PNone) = PTuple [PNone, PNone, PNone]
   \<and> images (init [0, 1, 2] PNone) = Inr PNone
   \<and> labels (init [0, 1, 2] PNone) = Inr PNone
   \<and> masks (init [0, 1, 2] PNone) = Inr PNone"
  using data_unset_defaults [of "init [0, 1, 2] PNone"] by (simp add: init_def)



section \<open>\<open>load\<close>\<close>

text \<open>
  Claim C7. With any format other than \<open>None\<close>, \<open>load\<close> raises the unsupported-format error
  and leaves the batch as it was.
\<close>

theorem load_unsupported_format:
  "fmt \<noteq> PNone \<Longrightarrow> load b src fmt = (Inl (UnsupportedFormat fmt), b)"
  by (simp add: load_def)

theorem load_unsupported_format_witness:
  "PStr ''blosc'' \<noteq> PNone
   \<and> load (init [0, 1, 2] PNone) (PArray (NdArray [3] [10, 20, 30])) (PStr ''blosc'')
       = (Inl (UnsupportedFormat (PStr ''blosc'')), init [0, 1, 2] PNone)"
  using load_unsupported_format
          [of "PStr ''blosc''" "init [0, 1, 2] PNone" "PArray (NdArray [3] [10, 20, 30])"]
  by simp

lemma length_row:
  assumes "wf_array a" and "shape a = n # ds" and "q < n"
  shows "length (row a q) = prod_list ds"
proof -
  let ?m = "prod_list ds"
  have "length (elems a) = n * ?m" using assms by (simp add: wf_array_def)
  moreover have "q * ?m + ?m \<le> n * ?m"
  proof -
    have "Suc q \<le> n" using assms(3) by simp
    then have "Suc q * ?m \<le> n * ?m" by (rule mult_le_mono1)
    then show ?thesis by (simp add: add.commute)
  qed
  ultimately show ?thesis using assms(2) by (simp add: row_def Let_def)
qed

lemma norm_index_valid:
  "- int n \<le> ix \<Longrightarrow> ix < int n \<Longrightarrow> norm_index n ix = Inr (position n ix) \<and> position n ix < n"
  by (auto simp: norm_index_def position_def Let_def)

lemma fancy_index_rows:
  assumes wf: "wf_array a" and sh: "shape a = n # ds"
    and ids: "list_all (\<lambda>ix. - int n \<le> ix \<and> ix < int n) ids"
  shows "\<exists>t. fancy_index (PArray a) ids = Inr (PArray t)
             \<and> shape t = length ids # ds
             \<and> (\<forall>p<length ids. py_getitem (PArray t) p
                                  = py_getitem (PArray a) (position n (ids ! p)))"
proof -
  let ?ps = "map (position n) ids"
  let ?t = "NdArray (length ids # ds) (concat (map (row a) ?ps))"
  have valid: "\<And>ix. ix \<in> set ids \<Longrightarrow> - int n \<le> ix \<and> ix < int n"
    using ids by (simp add: list_all_iff)
  have seq: "sequence (map (norm_index n) ids) = Inr ?ps"
    by (rule sequence_map_Inr) (simp add: norm_index_valid valid)
  have fi: "fancy_index (PArray a) ids = Inr (PArray ?t)"
    by (simp add: fancy_index_def sh seq)
  have rows: "\<And>r. r \<in> set (map (row a) ?ps) \<Longrightarrow> length r = prod_list ds"
    using length_row [OF wf sh] norm_index_valid valid by auto
  have item: "py_getitem (PArray ?t) p = py_getitem (PArray a) (position n (ids ! p))"
    if p: "p < length ids" for p
  proof -
    let ?q = "position n (ids ! p)"
    have q: "?q < n" using norm_index_valid valid p by simp
    have blk: "take (prod_list ds) (drop (p * prod_list ds) (concat (map (row a) ?ps))) = row a ?q"
      using take_drop_concat_uniform [of "map (row a) ?ps" "prod_list ds" p] rows p by simp
    have lhs: "py_getitem (PArray ?t) p = Inr (array_item ?t p)"
      using p by (simp add: py_getitem_def)
    have rhs: "py_getitem (PArray a) ?q = Inr (array_item a ?q)"
      using q sh by (simp add: py_getitem_def)
    have "array_item ?t p = array_item a ?q"
    proof (cases ds)
      case Nil
      have one: "take 1 (drop p (concat (map (row a) ?ps))) = take 1 (drop ?q (elems a))"
        using blk Nil sh by (simp add: row_def Let_def)
      have lq: "?q < length (elems a)" using wf sh Nil q by (simp add: wf_array_def)
      have "length (concat (map (row a) ?ps)) = length ids"
        using rows Nil by (induction ids) (auto simp: )
      then have lp: "p < length (concat (map (row a) ?ps))" using p by simp
      have "concat (map (row a) ?ps) ! p = hd (take 1 (drop p (concat (map (row a) ?ps))))"
        using lp by (simp add: hd_drop_conv_nth)
      also have "\<dots> = hd (take 1 (drop ?q (elems a)))" using one by simp
      also have "\<dots> = elems a ! ?q" using lq by (simp add: hd_drop_conv_nth)
      finally show ?thesis using Nil sh by (simp add: array_item_def Let_def)
    next
      case (Cons d ds')
      then show ?thesis using blk sh by (simp add: array_item_def row_def Let_def)
    qed
    then show ?thesis using lhs rhs by simp
  qed
  show ?thesis using fi item by (intro exI [of _ ?t]) simp
qed

lemma load_slot_selects:
  assumes "i < 3" and src: "list_all (valid_source ids) (take 3 cs)"
  shows "\<exists>s. load_slot cs ids i = Inr s
             \<and> (if i < length cs
                 then (\<forall>p<length ids. py_getitem s p
                          = py_getitem (cs ! i) (position (first_axis (cs ! i)) (ids ! p)))
                      \<and> py_getitem s (length ids) = Inl IndexError
                 else s = PNone)"
proof (cases "i < length cs")
  case False
  then show ?thesis by (simp add: load_slot_def)
next
  case True
  then have "i < length (take 3 cs)" using assms(1) by simp
  then have "take 3 cs ! i \<in> set (take 3 cs)" by (rule nth_mem)
  moreover have "take 3 cs ! i = cs ! i" using assms(1) by simp
  ultimately have "cs ! i \<in> set (take 3 cs)" by simp
  then have v: "valid_source ids (cs ! i)" using src by (simp add: list_all_iff)
  then obtain a where a: "cs ! i = PArray a" by (auto simp: valid_source_def split: pyval.splits)
  from v a obtain n ds where sh: "shape a = n # ds" and wf: "wf_array a"
    and ids: "list_all (\<lambda>ix. - int n \<le> ix \<and> ix < int n) ids"
    by (auto simp: valid_source_def split: list.splits)
  from fancy_index_rows [OF wf sh ids] obtain t where
    t: "fancy_index (PArray a) ids = Inr (PArray t)" "shape t = length ids # ds"
       "\<forall>p<length ids. py_getitem (PArray t) p = py_getitem (PArray a) (position n (ids ! p))"
    by blast
  have fa: "first_axis (cs ! i) = n" using a sh by (simp add: first_axis_def)
  have "py_getitem (PArray t) (length ids) = Inl IndexError"
    using t(2) by (simp add: py_getitem_def)
  then show ?thesis using True t a fa by (simp add: load_slot_def)
qed

text \<open>
  Claim C6, as amended. With no format and a tuple of sources that the batch's identifiers
  can index, \<open>load\<close> returns the batch with a container of three slots: slot \<open>i\<close>, for
  \<open>i\<close> below the tuple's length, holds one entry per item of the batch, the entry at
  position \<open>p\<close> being the source's entry at the position that the \<open>p\<close>-th identifier
  selects; every remaining slot is \<open>None\<close>.
\<close>

theorem load_tuple_selects_by_indices:
  assumes "i < 3" and "list_all (valid_source (indices b)) (take 3 cs)"
  shows "\<exists>slots. load b (PTuple cs) PNone = (Inr ReturnsSelf, b\<lparr>priv_data := PTuple slots\<rparr>)
           \<and> length slots = 3
           \<and> (if i < length cs
               then (\<forall>p<length (indices b).
                        py_getitem (slots ! i) p
                        = py_getitem (cs ! i) (position (first_axis (cs ! i)) (indices b ! p)))
                    \<and> py_getitem (slots ! i) (length (indices b)) = Inl IndexError
               else slots ! i = PNone)"
proof -
  let ?ids = "indices b"
  have "\<forall>j<3. \<exists>s. load_slot cs ?ids j = Inr s"
    using load_slot_selects [OF _ assms(2)] by blast
  then obtain g where g: "\<And>j. j < 3 \<Longrightarrow> load_slot cs ?ids j = Inr (g j)" by metis
  have "sequence (map (load_slot cs ?ids) [0..<3]) = Inr (map g [0..<3])"
    by (rule sequence_map_Inr) (simp add: g)
  then have ld: "load b (PTuple cs) PNone = (Inr ReturnsSelf, b\<lparr>priv_data := PTuple (map g [0..<3])\<rparr>)"
    by (simp add: load_def)
  have nth: "map g [0..<3] ! i = g i" using assms(1) by simp
  from load_slot_selects [OF assms(1) assms(2)] g [OF assms(1)]
  have "if i < length cs
        then (\<forall>p<length ?ids. py_getitem (g i) p
                 = py_getitem (cs ! i) (position (first_axis (cs ! i)) (?ids ! p)))
             \<and> py_getitem (g i) (length ?ids) = Inl IndexError
        else g i = PNone"
    by simp
  then show ?thesis using ld nth by (intro exI [of _ "map g [0..<3]"]) simp
qed

theorem load_tuple_selects_by_indices_witness:
  "list_all (valid_source (indices (init [0, 1, 2] PNone))) (take 3 [PArray (NdArray [3] [10, 20, 30])])
   \<and> load (init [0, 1, 2] PNone) (PTuple [PArray (NdArray [3] [10, 20, 30])]) PNone
       = (Inr ReturnsSelf,
          (init [0, 1, 2] PNone)\<lparr>priv_data := PTuple [PArray (NdArray [3] [10, 20, 30]), PNone, PNone]\<rparr>)"
proof -
  have v: "list_all (valid_source (indices (init [0, 1, 2] PNone)))
             (take 3 [PArray (NdArray [3] [10, 20, 30])])"
    by (simp add: valid_source_def wf_array_def init_def)
  have i: "(0::nat) < 3" by simp
  from load_tuple_selects_by_indices [OF i v] obtain slots where
    "load (init [0, 1, 2] PNone) (PTuple [PArray (NdArray [3] [10, 20, 30])]) PNone
       = (Inr ReturnsSelf, (init [0, 1, 2] PNone)\<lparr>priv_data := PTuple slots\<rparr>)"
    by blast
  moreover have "load (init [0, 1, 2] PNone) (PTuple [PArray (NdArray [3] [10, 20, 30])]) PNone
       = (Inr ReturnsSelf,
          (init [0, 1, 2] PNone)\<lparr>priv_data := PTuple [PArray (NdArray [3] [10, 20, 30]), PNone, PNone]\<rparr>)"
    by (simp add: load_def load_slot_def fancy_index_def norm_index_def row_def init_def range3)
  ultimately show ?thesis using v by simp
qed

text \<open>
  Claim C6 as stated fails on an index of length 3 that is not in source order: with the
  identifiers 2, 1, 0 the first slot becomes \<open>[30, 20, 10]\<close>, not \<open>[10, 20, 30]\<close>.
\<close>

theorem load_reordered_index_counterexample:
  "images (snd (load (init [2, 1, 0] PNone) (PTuple [PArray (NdArray [3] [10, 20, 30])]) PNone))
     = Inr (PArray (NdArray [3] [30, 20, 10]))
   \<and> images (snd (load (init [2, 1, 0] PNone) (PTuple [PArray (NdArray [3] [10, 20, 30])]) PNone))
     \<noteq> Inr (PArray (NdArray [3] [10, 20, 30]))"
  by (simp add: load_def load_slot_def fancy_index_def norm_index_def row_def init_def
        images_def data_def base_data_def py_getitem_def range3)

section \<open>The transforms\<close>



text \<open>
  Claim C8. \<open>dump\<close> returns the batch, but \<open>apply_transform_all\<close> returns \<open>None\<close>: called
  with no source attribute and a function that returns 0, it ends without a value.
\<close>

theorem apply_transform_all_returns_none:
  "fst (apply_transform_all batch3 None ''images'' (\<lambda>args kw. Inr (PInt 0)) [] []) = Inr ReturnsNone
   \<and> fst (dump batch3 PNone PNone) = Inr ReturnsSelf"
  by (simp add: apply_transform_all_def dump_def py_getattr_def images_def data_def base_data_def
        py_getitem_def batch3_def)

text \<open>
  With a source attribute set, the body of \<open>apply_transform\<close> raises for every item,
  whatever the function, and changes nothing.
\<close>

lemma apply_transform_body_src_set:
  "\<exists>e. apply_transform_body b ix (Some s) dst func args kw = (Inl e, b)"
  by (simp add: apply_transform_body_def read_local_def split: sum.splits)

text \<open>
  Claim C3. On the batch of three items with images \<open>[1, 2, 3]\<close>, transforming \<open>images\<close>
  into \<open>_new_attr\<close> with the doubling function fails for every item with
  \<open>UnboundLocalError\<close>; the function is never called and \<open>_new_attr\<close> keeps its three
  \<open>None\<close> entries.
\<close>

theorem apply_transform_src_unbound_pos:
  "apply_transform batch3 (Some ''images'') ''_new_attr'' times2 [] []
   = ([Failure UnboundLocalError, Failure UnboundLocalError, Failure UnboundLocalError], batch3)
   \<and> priv_new_attr batch3 = PList [PNone, PNone, PNone]"
  by (simp add: apply_transform_def apply_transform_body_def read_local_def py_getattr_def
        images_def data_def base_data_def py_getitem_def batch3_def)

end
